theory Spec2Isabelle
  imports Main
begin

section \<open>JavaScript strings and the regular expressions of the rule table\<close>

text \<open>
  A JavaScript string is a sequence of UTF-16 code units, and \<open>length\<close> counts code
  units. Every character of the rule table (\<open>0xA9\<close> for the copyright sign,
  \<open>0x201C\<close> for the left double quotation mark, ...) is one code unit, so a string is
  modelled as the list of its code units. \<open>str\<close> reads an ASCII literal.
\<close>

type_synonym jschar = nat
type_synonym jsstring = "jschar list"

definition str :: "string \<Rightarrow> jsstring" where
  "str s = map of_char s"

text \<open>
  The patterns of \<open>texttransformation.js\<close> use literal characters, the class \<open>\s\<close>,
  a negated one-character class \<open>[^q]\<close>, \<open>^\<close>, \<open>$\<close>, alternation, a greedy star on a
  class and capturing groups. The abstract syntax below is that fragment; a group
  carries its number, counted from 1 in the order of the opening parentheses.
\<close>

datatype cclass = CLit jschar | CSpace | CNotLit jschar

text \<open>\<open>\s\<close> of ECMAScript: white space and line terminators.\<close>

definition isWhiteSpace :: "jschar \<Rightarrow> bool" where
  "isWhiteSpace c \<longleftrightarrow>
     c \<in> {0x09, 0x0A, 0x0B, 0x0C, 0x0D, 0x20, 0xA0, 0x1680, 0x2028, 0x2029, 0x202F,
          0x205F, 0x3000, 0xFEFF} \<or> (0x2000 \<le> c \<and> c \<le> 0x200A)"

fun cmatch :: "cclass \<Rightarrow> jschar \<Rightarrow> bool" where
  "cmatch (CLit a) c = (c = a)"
| "cmatch CSpace c = isWhiteSpace c"
| "cmatch (CNotLit a) c = (c \<noteq> a)"

datatype regex =
    Atom cclass
  | Bol
  | Eol
  | Eps
  | Alt regex regex
  | Seq regex regex
  | Star cclass
  | Group nat regex

text \<open>
  A backtracking matcher as a list of successes: \<open>rmatch r s (i, cs)\<close> lists, in the
  order in which a backtracking engine tries them, the states (end position and
  captures) in which \<open>r\<close> can match \<open>s\<close> from position \<open>i\<close>. An alternation tries its
  left branch first; a star is greedy, so the longest run comes first.
\<close>

type_synonym captures = "nat \<Rightarrow> (nat \<times> nat) option"
type_synonym mstate = "nat \<times> captures"

fun rmatch :: "regex \<Rightarrow> jsstring \<Rightarrow> mstate \<Rightarrow> mstate list" where
  "rmatch (Atom c) s (i, cs) = (if i < length s \<and> cmatch c (s ! i) then [(Suc i, cs)] else [])"
| "rmatch Bol s (i, cs) = (if i = 0 then [(i, cs)] else [])"
| "rmatch Eol s (i, cs) = (if i = length s then [(i, cs)] else [])"
| "rmatch Eps s (i, cs) = [(i, cs)]"
| "rmatch (Alt a b) s (i, cs) = rmatch a s (i, cs) @ rmatch b s (i, cs)"
| "rmatch (Seq a b) s (i, cs) = concat (map (rmatch b s) (rmatch a s (i, cs)))"
| "rmatch (Star c) s (i, cs) =
     map (\<lambda>j. (j, cs)) (rev [i ..< Suc (i + length (takeWhile (cmatch c) (drop i s)))])"
| "rmatch (Group k r) s (i, cs) =
     map (\<lambda>(j, cs'). (j, cs'(k := Some (i, j)))) (rmatch r s (i, cs))"

fun ngroups :: "regex \<Rightarrow> nat" where
  "ngroups (Alt a b) = ngroups a + ngroups b"
| "ngroups (Seq a b) = ngroups a + ngroups b"
| "ngroups (Group k r) = Suc (ngroups r)"
| "ngroups r = 0"

text \<open>
  The result of \<open>RegExp.prototype.exec\<close>: \<open>index\<close> is \<open>matches.index\<close>, \<open>whole\<close> is
  \<open>matches[0]\<close> and \<open>groups\<close> is \<open>matches.slice(1)\<close>; a group that took no part in the
  match is \<open>undefined\<close> (\<open>None\<close>).
\<close>

record regmatch =
  index :: nat
  whole :: jsstring
  groups :: "jsstring option list"

definition substring :: "jsstring \<Rightarrow> nat \<Rightarrow> nat \<Rightarrow> jsstring" where
  "substring s a b = take (b - a) (drop a s)"

fun first_match :: "regex \<Rightarrow> jsstring \<Rightarrow> nat list \<Rightarrow> (nat \<times> mstate) option" where
  "first_match re s [] = None"
| "first_match re s (i # starts) =
     (case rmatch re s (i, \<lambda>k. None) of
        [] \<Rightarrow> first_match re s starts
      | st # _ \<Rightarrow> Some (i, st))"

text \<open>
  \<open>exec\<close> of a pattern without flags: the leftmost start position at which the pattern
  matches, and there the first success of the backtracking search.
\<close>

definition exec :: "regex \<Rightarrow> jsstring \<Rightarrow> regmatch option" where
  "exec re s =
     (case first_match re s [0 ..< Suc (length s)] of
        None \<Rightarrow> None
      | Some (i, (j, cs)) \<Rightarrow>
          Some \<lparr> index = i, whole = substring s i j,
                 groups = map (\<lambda>k. map_option (\<lambda>(a, b). substring s a b) (cs k))
                            [1 ..< Suc (ngroups re)] \<rparr>)"

definition test :: "regex \<Rightarrow> jsstring \<Rightarrow> bool" where
  "test re s \<longleftrightarrow> exec re s \<noteq> None"

section \<open>Transformation rules (\<open>texttransformation.js\<close>)\<close>

text \<open>
  The \<open>from\<close> of a rule is a string or a \<open>RegExp\<close>, its \<open>to\<close> a string, an array of
  strings and \<open>null\<close>s, or a function from the captured groups to such an array.
  \<open>FromUndefined\<close> and \<open>ToUndefined\<close> are what reading \<open>.from\<close> and \<open>.to\<close> gives on a
  value that has no such property.
\<close>

datatype from_val = FromStr jsstring | FromRe regex | FromUndefined

datatype to_val =
    ToStr jsstring
  | ToArr "jsstring option list"
  | ToFn "jsstring option list \<Rightarrow> jsstring option list"
  | ToUndefined

record rule =
  t_from :: from_val
  t_to :: to_val

text \<open>
  \<open>buildQuotesRegExp(q)\<close> is \<open>new RegExp(`(^|\\s)(${q})([^${q}]*)(${q})$`)\<close>.
\<close>

definition buildQuotesRegExp :: "jschar \<Rightarrow> regex" where
  "buildQuotesRegExp quoteCharacter =
     Seq (Group 1 (Alt Bol (Atom CSpace)))
    (Seq (Group 2 (Atom (CLit quoteCharacter)))
    (Seq (Group 3 (Star (CNotLit quoteCharacter)))
    (Seq (Group 4 (Atom (CLit quoteCharacter)))
         Eol)))"

text \<open>\<open>/(^| )(--)( )$/\<close> and \<open>/(^| )(---)( )$/\<close>.\<close>

definition dashRegExp :: "nat \<Rightarrow> regex" where
  "dashRegExp n =
     Seq (Group 1 (Alt Bol (Atom (CLit 0x20))))
    (Seq (Group 2 (foldr (\<lambda>c r. Seq (Atom (CLit c)) r) (replicate n 0x2D) Eps))
    (Seq (Group 3 (Atom (CLit 0x20)))
         Eol))"

definition TRANSFORMATIONS :: "(string \<times> rule) list" where
  "TRANSFORMATIONS =
   [ (''copyright'', \<lparr> t_from = FromStr (str ''(c)''), t_to = ToStr [0xA9] \<rparr>),
     (''registeredTrademark'', \<lparr> t_from = FromStr (str ''(r)''), t_to = ToStr [0xAE] \<rparr>),
     (''trademark'', \<lparr> t_from = FromStr (str ''(tm)''), t_to = ToStr [0x2122] \<rparr>),
     (''oneHalf'', \<lparr> t_from = FromStr (str ''1/2''), t_to = ToStr [0xBD] \<rparr>),
     (''oneThird'', \<lparr> t_from = FromStr (str ''1/3''), t_to = ToStr [0x2153] \<rparr>),
     (''twoThirds'', \<lparr> t_from = FromStr (str ''2/3''), t_to = ToStr [0x2154] \<rparr>),
     (''oneForth'', \<lparr> t_from = FromStr (str ''1/4''), t_to = ToStr [0xBC] \<rparr>),
     (''threeQuarters'', \<lparr> t_from = FromStr (str ''3/4''), t_to = ToStr [0xBE] \<rparr>),
     (''lessThanOrEqual'', \<lparr> t_from = FromStr (str ''<=''), t_to = ToStr [0x2264] \<rparr>),
     (''greaterThanOrEqual'', \<lparr> t_from = FromStr (str ''>=''), t_to = ToStr [0x2265] \<rparr>),
     (''notEqual'', \<lparr> t_from = FromStr (str ''!=''), t_to = ToStr [0x2260] \<rparr>),
     (''arrowLeft'', \<lparr> t_from = FromStr (str ''<-''), t_to = ToStr [0x2190] \<rparr>),
     (''arrowRight'', \<lparr> t_from = FromStr (str ''->''), t_to = ToStr [0x2192] \<rparr>),
     (''horizontalEllipsis'', \<lparr> t_from = FromStr (str ''...''), t_to = ToStr [0x2026] \<rparr>),
     (''enDash'', \<lparr> t_from = FromRe (dashRegExp 2), t_to = ToArr [None, Some [0x2013], None] \<rparr>),
     (''emDash'', \<lparr> t_from = FromRe (dashRegExp 3), t_to = ToArr [None, Some [0x2014], None] \<rparr>),
     (''quotesPrimary'', \<lparr> t_from = FromRe (buildQuotesRegExp 0x22),
         t_to = ToArr [None, Some [0x201C], None, Some [0x201D]] \<rparr>),
     (''quotesSecondary'', \<lparr> t_from = FromRe (buildQuotesRegExp 0x27),
         t_to = ToArr [None, Some [0x2018], None, Some [0x2019]] \<rparr>),
     (''quotesPrimaryEnGb'', \<lparr> t_from = FromRe (buildQuotesRegExp 0x27),
         t_to = ToArr [None, Some [0x2018], None, Some [0x2019]] \<rparr>),
     (''quotesSecondaryEnGb'', \<lparr> t_from = FromRe (buildQuotesRegExp 0x22),
         t_to = ToArr [None, Some [0x201C], None, Some [0x201D]] \<rparr>),
     (''quotesPrimaryPl'', \<lparr> t_from = FromRe (buildQuotesRegExp 0x22),
         t_to = ToArr [None, Some [0x201E], None, Some [0x201D]] \<rparr>),
     (''quotesSecondaryPl'', \<lparr> t_from = FromRe (buildQuotesRegExp 0x27),
         t_to = ToArr [None, Some [0x201A], None, Some [0x2019]] \<rparr>) ]"

definition TRANSFORMATION_GROUPS :: "(string \<times> string list) list" where
  "TRANSFORMATION_GROUPS =
   [ (''symbols'', [''copyright'', ''registeredTrademark'', ''trademark'']),
     (''mathematical'',
        [''oneHalf'', ''oneThird'', ''twoThirds'', ''oneForth'', ''threeQuarters'',
         ''lessThanOrEqual'', ''greaterThanOrEqual'', ''notEqual'',
         ''arrowLeft'', ''arrowRight'']),
     (''typography'', [''horizontalEllipsis'', ''enDash'', ''emDash'']),
     (''quotes'', [''quotesPrimary'', ''quotesSecondary'']) ]"

definition DEFAULT_TRANSFORMATIONS :: "string list" where
  "DEFAULT_TRANSFORMATIONS = [''symbols'', ''mathematical'', ''typography'', ''quotes'']"

text \<open>
  \<open>normalizeFrom\<close>: a string becomes \<open>new RegExp(`(${escapeRegExp(from)})$`)\<close>. The
  escaped string, read as a pattern, matches exactly the characters of \<open>from\<close> one after
  the other, which \<open>literal\<close> builds directly; anything else is returned unchanged.
\<close>

definition literal :: "jsstring \<Rightarrow> regex" where
  "literal s = foldr (\<lambda>c r. Seq (Atom (CLit c)) r) s Eps"

fun normalizeFrom :: "from_val \<Rightarrow> from_val" where
  "normalizeFrom (FromStr s) = FromRe (Seq (Group 1 (literal s)) Eol)"
| "normalizeFrom v = v"

text \<open>
  \<open>normalizeTo\<close>: a string becomes the function returning the one-element array, an
  array the function returning it, and anything else is returned unchanged (a function,
  or \<open>undefined\<close>, which is \<open>None\<close> here).
\<close>

fun normalizeTo :: "to_val \<Rightarrow> (jsstring option list \<Rightarrow> jsstring option list) option" where
  "normalizeTo (ToStr s) = Some (\<lambda>_. [Some s])"
| "normalizeTo (ToArr a) = Some (\<lambda>_. a)"
| "normalizeTo (ToFn f) = Some f"
| "normalizeTo ToUndefined = None"

section \<open>The document and the replacement (\<open>TextTransformation.init\<close>)\<close>

text \<open>
  The content of the element that holds the caret (\<open>selection.focus.parent\<close>), one
  entry per offset: a character of a text node with the attributes of that node, or an
  inline element with its attributes.
\<close>

type_synonym attributes = "(string \<times> string) list"

datatype node = Chr jschar attributes | Elem string attributes

fun getAttributes :: "node \<Rightarrow> attributes" where
  "getAttributes (Chr c a) = a"
| "getAttributes (Elem n a) = a"

definition plainText :: "jsstring \<Rightarrow> node list" where
  "plainText s = map (\<lambda>c. Chr c []) s"

datatype error = TypeError | RangeError

text \<open>
  \<open>getTextAttributesAfterPosition\<close>: \<open>position.textNode\<close> or else \<open>position.nodeAfter\<close> is
  the node at the offset; at the end of the parent (or beyond it) there is no such node
  and \<open>textNode.getAttributes()\<close> throws.
\<close>

definition getTextAttributesAfterPosition :: "node list \<Rightarrow> nat \<Rightarrow> error + attributes" where
  "getTextAttributesAfterPosition parent offset =
     (if offset < length parent then Inr (getAttributes (parent ! offset)) else Inl TypeError)"

definition createText :: "jsstring \<Rightarrow> attributes \<Rightarrow> node list" where
  "createText s a = map (\<lambda>c. Chr c a) s"

text \<open>
  Modelled from the spec: the host's \<open>model.insertContent(text, range)\<close>, which is not
  part of this repository. The spec says: "Replace the span [cursor, cursor +
  capturedLength) with the replacement value carrying those attributes". A range that
  ends beyond the parent is refused.
\<close>

definition insertContent :: "node list \<Rightarrow> nat \<times> nat \<Rightarrow> node list \<Rightarrow> error + node list" where
  "insertContent new replaceRange parent =
     (if snd replaceRange \<le> length parent
      then Inr (take (fst replaceRange) parent @ new @ drop (snd replaceRange) parent)
      else Inl RangeError)"

text \<open>
  The body of the callback given to \<open>model.enqueueChange\<close>: the loop
  \<open>for ( let i = 1; i < matches.length; i++ )\<close>. The first argument holds
  \<open>matches[i], matches[i + 1], ...\<close>. \<open>replaces[i - 1]\<close> beyond the end of the array is
  \<open>undefined\<close>, and \<open>undefined == null\<close> holds; \<open>match.length\<close> of a group that is
  \<open>undefined\<close> throws.
\<close>

fun replaceLoop ::
  "jsstring option list \<Rightarrow> jsstring option list \<Rightarrow> nat \<Rightarrow> nat \<Rightarrow> node list \<Rightarrow> error + node list"
where
  "replaceLoop [] replaces i changeIndex parent = Inr parent"
| "replaceLoop (m # ms) replaces i changeIndex parent =
     (case (if i - 1 < length replaces then replaces ! (i - 1) else None) of
        None \<Rightarrow>
          (case m of
             None \<Rightarrow> Inl TypeError
           | Some match \<Rightarrow> replaceLoop ms replaces (Suc i) (changeIndex + length match) parent)
      | Some replaceWith \<Rightarrow>
          (case m of
             None \<Rightarrow> Inl TypeError
           | Some match \<Rightarrow>
               (case getTextAttributesAfterPosition parent changeIndex of
                  Inl e \<Rightarrow> Inl e
                | Inr attributes \<Rightarrow>
                    (case insertContent (createText replaceWith attributes)
                            (changeIndex, changeIndex + length match) parent of
                       Inl e \<Rightarrow> Inl e
                     | Inr parent' \<Rightarrow>
                         replaceLoop ms replaces (Suc i) (changeIndex + length replaceWith)
                           parent'))))"

text \<open>
  The document: the content of the caret's parent, and the content that change
  listeners were notified of, oldest first.
\<close>

record document =
  content :: "node list"
  notified :: "node list list"

text \<open>
  Modelled from the spec: the host's \<open>model.enqueueChange(callback)\<close>, which is not part
  of this repository. The spec says that a transaction "guarantees listeners observe
  either the fully-applied or the not-yet-applied state, never partial", that the
  change-applied notification is "fired once per completed transaction", and that on a
  failure inside the callback "the document rolls back to its pre-transaction state".
  The first component of the result is the error that surfaces, if any.
\<close>

definition enqueueChange ::
  "document \<Rightarrow> (node list \<Rightarrow> error + node list) \<Rightarrow> error option \<times> document" where
  "enqueueChange d callback =
     (case callback (content d) of
        Inl e \<Rightarrow> (Some e, d)
      | Inr c \<Rightarrow> (None, d\<lparr> content := c, notified := notified d @ [c] \<rparr>))"

text \<open>
  A batch, with the type the watcher looks at. Whether a batch comes from the input
  command (\<open>input.isInput(batch)\<close>) is decided by the Input plugin and is a parameter of
  the handler.
\<close>

datatype batch_type = Default | Transparent

record batch =
  batch_id :: nat
  btype :: batch_type

record matched_data =
  text_before :: jsstring
  data_batch :: batch

text \<open>
  The listener of \<open>matched:data\<close> for a rule whose normalized \<open>from\<close> and \<open>to\<close> are given.
  Calling \<open>exec\<close> on a value that is not a \<open>RegExp\<close>, \<open>slice\<close> on \<open>null\<close> and calling
  \<open>undefined\<close> throw a \<open>TypeError\<close> before the transaction is opened.
\<close>

definition matchedDataHandler ::
  "(batch \<Rightarrow> bool) \<Rightarrow> from_val \<Rightarrow> (jsstring option list \<Rightarrow> jsstring option list) option \<Rightarrow>
   matched_data \<Rightarrow> document \<Rightarrow> error option \<times> document" where
  "matchedDataHandler isInput from_re to_fn data d =
     (if \<not> isInput (data_batch data) then (None, d)
      else
        (case from_re of
           FromRe re \<Rightarrow>
             (case exec re (text_before data) of
                None \<Rightarrow> (Some TypeError, d)
              | Some matches \<Rightarrow>
                  (case to_fn of
                     None \<Rightarrow> (Some TypeError, d)
                   | Some f \<Rightarrow>
                       enqueueChange d
                         (replaceLoop (groups matches) (f (groups matches)) 1 (index matches))))
         | _ \<Rightarrow> (Some TypeError, d)))"

text \<open>
  The events of a watcher. \<open>TextTransformation.init\<close> registers its listener with
  \<open>watcher.on( 'matched:data', ... )\<close> only: the other two events have no listener.
\<close>

datatype watcher_event =
    MatchedData matched_data
  | MatchedSelection jsstring
  | Unmatched

definition onWatcherEvent ::
  "(batch \<Rightarrow> bool) \<Rightarrow> from_val \<Rightarrow> (jsstring option list \<Rightarrow> jsstring option list) option \<Rightarrow>
   watcher_event \<Rightarrow> document \<Rightarrow> error option \<times> document" where
  "onWatcherEvent isInput from_re to_fn ev d =
     (case ev of
        MatchedData data \<Rightarrow> matchedDataHandler isInput from_re to_fn data d
      | MatchedSelection t \<Rightarrow> (None, d)
      | Unmatched \<Rightarrow> (None, d))"

section \<open>Rule-set resolution (\<open>getConfiguredTransformations\<close>)\<close>

text \<open>
  An entry of \<open>include\<close>, \<open>extra\<close> or \<open>remove\<close> is a string (the name of a rule or of a
  group) or a rule object. JavaScript compares objects by reference; the model compares
  their contents, which differs only for two distinct objects with the same contents.
  Names are assumed not to be properties that every object inherits (\<open>constructor\<close>,
  \<open>toString\<close>, ...).
\<close>

datatype description = Name string | Obj rule

record config =
  cfg_include :: "description list"
  cfg_extra :: "description list option"
  cfg_remove :: "description list option"

text \<open>\<open>Set.prototype.add\<close>, with the set kept in insertion order as \<open>Array.from\<close> reads it.\<close>

definition setAdd :: "'a list \<Rightarrow> 'a \<Rightarrow> 'a list" where
  "setAdd definedTransformations x =
     (if x \<in> set definedTransformations then definedTransformations
      else definedTransformations @ [x])"

fun expandLoop :: "description list \<Rightarrow> description list \<Rightarrow> description list" where
  "expandLoop [] definedTransformations = definedTransformations"
| "expandLoop (Name n # definitions) definedTransformations =
     (case map_of TRANSFORMATION_GROUPS n of
        Some members \<Rightarrow>
          expandLoop definitions (foldl setAdd definedTransformations (map Name members))
      | None \<Rightarrow> expandLoop definitions (setAdd definedTransformations (Name n)))"
| "expandLoop (Obj r # definitions) definedTransformations =
     expandLoop definitions (setAdd definedTransformations (Obj r))"

definition expandGroupsAndRemoveDuplicates :: "description list \<Rightarrow> description list" where
  "expandGroupsAndRemoveDuplicates definitions = expandLoop definitions []"

definition isNotRemoved :: "config \<Rightarrow> description \<Rightarrow> bool" where
  "isNotRemoved cfg transformation \<longleftrightarrow>
     transformation \<notin> set (case cfg_remove cfg of None \<Rightarrow> [] | Some r \<Rightarrow> r)"

text \<open>
  The entries that survive both filters, before \<open>.map\<close> replaces the names of built-in
  rules by the rules.
\<close>

definition configuredNames :: "config \<Rightarrow> description list" where
  "configuredNames cfg =
     filter (isNotRemoved cfg)
       (expandGroupsAndRemoveDuplicates
          (filter (isNotRemoved cfg)
             (cfg_include cfg @ (case cfg_extra cfg of None \<Rightarrow> [] | Some e \<Rightarrow> e))))"

text \<open>\<open>TRANSFORMATIONS[ transformation ] || transformation\<close>.\<close>

fun lookupTransformation :: "description \<Rightarrow> description" where
  "lookupTransformation (Name n) =
     (case map_of TRANSFORMATIONS n of Some r \<Rightarrow> Obj r | None \<Rightarrow> Name n)"
| "lookupTransformation (Obj r) = Obj r"

definition getConfiguredTransformations :: "config \<Rightarrow> description list" where
  "getConfiguredTransformations cfg = map lookupTransformation (configuredNames cfg)"

text \<open>
  \<open>init\<close> reads \<open>transformation.from\<close> and \<open>transformation.to\<close> of every configured entry; a
  string has neither property. The watcher of a rule is built with the predicate
  \<open>text => from.test( text )\<close>, which throws when \<open>from\<close> is not a \<open>RegExp\<close>.
\<close>

fun definitionFrom :: "description \<Rightarrow> from_val" where
  "definitionFrom (Name n) = FromUndefined"
| "definitionFrom (Obj r) = t_from r"

fun definitionTo :: "description \<Rightarrow> to_val" where
  "definitionTo (Name n) = ToUndefined"
| "definitionTo (Obj r) = t_to r"

fun watcherTest :: "from_val \<Rightarrow> jsstring \<Rightarrow> error + bool" where
  "watcherTest (FromRe re) t = Inr (test re t)"
| "watcherTest v t = Inl TypeError"

section \<open>The caret-context watcher\<close>

text \<open>
  Modelled from the spec: \<open>src/textwatcher.js\<close> of this repository is not among the
  sources (only its tests are). What follows is section 4.1 of the spec.

  A notification carries what the watcher reads from the document at that moment:
  whether the selection is collapsed, the content of the caret's parent and the offset
  of the caret in it.
\<close>

record snapshot =
  sel_collapsed :: bool
  sel_parent :: "node list"
  sel_offset :: nat

datatype notification =
    ChangeApplied batch snapshot
  | SelectionChanged snapshot

fun isChr :: "node \<Rightarrow> bool" where
  "isChr (Chr c a) = True"
| "isChr (Elem n a) = False"

fun chrOf :: "node \<Rightarrow> jschar" where
  "chrOf (Chr c a) = c"
| "chrOf (Elem n a) = 0"

text \<open>
  Modelled from the spec: the extraction of the caret context. "Walk backward from the
  caret position through sibling text content within the same text-bearing container,
  stopping at the first non-text inline node (extraction excludes it) or at the start of
  the container. Concatenate the scanned characters in original order." (\<open>chrOf\<close> is
  only ever applied to characters.)
\<close>

definition caretContext :: "snapshot \<Rightarrow> jsstring" where
  "caretContext sn =
     map chrOf (rev (takeWhile isChr (rev (take (sel_offset sn) (sel_parent sn)))))"

text \<open>
  Modelled from the spec: the handling of one notification ("On change-applied" and "On
  selection-changed" of section 4.1). The result is the new "currently matched" flag
  and the events emitted; the argument \<open>matched\<close> is the flag before.
\<close>

fun watcherStep :: "(jsstring \<Rightarrow> bool) \<Rightarrow> bool \<Rightarrow> notification \<Rightarrow> bool \<times> watcher_event list" where
  "watcherStep testCallback matched (ChangeApplied b sn) =
     (if btype b = Transparent then (matched, [])
      else if \<not> sel_collapsed sn then (matched, [])
      else if testCallback (caretContext sn)
        then (True, [MatchedData \<lparr> text_before = caretContext sn, data_batch = b \<rparr>])
      else if matched then (False, [Unmatched])
      else (False, []))"
| "watcherStep testCallback matched (SelectionChanged sn) =
     (if \<not> sel_collapsed sn then (if matched then (False, [Unmatched]) else (False, []))
      else if testCallback (caretContext sn)
        then (if matched then (True, []) else (True, [MatchedSelection (caretContext sn)]))
      else if matched then (False, [Unmatched])
      else (False, []))"

fun watcherRun :: "(jsstring \<Rightarrow> bool) \<Rightarrow> bool \<Rightarrow> notification list \<Rightarrow> watcher_event list" where
  "watcherRun testCallback matched [] = []"
| "watcherRun testCallback matched (n # ns) =
     snd (watcherStep testCallback matched n) @
       watcherRun testCallback (fst (watcherStep testCallback matched n)) ns"

text \<open>
  The contexts on which the predicate is evaluated, in order: a notification that the
  watcher ignores evaluates nothing.
\<close>

fun evaluatedContexts :: "notification list \<Rightarrow> jsstring list" where
  "evaluatedContexts [] = []"
| "evaluatedContexts (ChangeApplied b sn # ns) =
     (if btype b = Transparent \<or> \<not> sel_collapsed sn then evaluatedContexts ns
      else caretContext sn # evaluatedContexts ns)"
| "evaluatedContexts (SelectionChanged sn # ns) =
     (if \<not> sel_collapsed sn then evaluatedContexts ns
      else caretContext sn # evaluatedContexts ns)"

fun isMatchedEvent :: "watcher_event \<Rightarrow> bool" where
  "isMatchedEvent (MatchedData data) = True"
| "isMatchedEvent (MatchedSelection t) = True"
| "isMatchedEvent Unmatched = False"

text \<open>
  \<open>alternating b evs\<close>: the events are matched, unmatched, matched, ... in strict
  alternation, the first one matched when \<open>b\<close> holds and unmatched otherwise.
\<close>

fun alternating :: "bool \<Rightarrow> watcher_event list \<Rightarrow> bool" where
  "alternating b [] = True"
| "alternating b (e # es) = (isMatchedEvent e = b \<and> alternating (\<not> b) es)"

section \<open>Unsafe keystrokes (\<open>injectunsafekeystrokeshandling.js\<close>)\<close>

text \<open>
  The key data the handler reads, and the state it works on: the closure variable
  \<open>latestCompositionSelection\<close>, \<open>view.document.isComposing\<close>, \<open>inputCommand.isEnabled\<close>,
  and the model document, here one block of content with a selection from \<open>fst\<close> to
  \<open>snd\<close>.
\<close>

record key_event_data =
  keyCode :: nat
  ctrlKey :: bool

type_synonym range = "nat \<times> nat"

record typing_state =
  latestCompositionSelection :: "range option"
  isComposing :: bool
  isEnabled :: bool
  doc_content :: "node list"
  doc_selection :: range

text \<open>
  \<open>getCode( 'arrowUp' )\<close>, \<open>'arrowRight'\<close>, \<open>'arrowDown'\<close> and \<open>'arrowLeft'\<close> are 38, 39, 40
  and 37 in the key-code table of the utilities package; the loop at module load adds
  the function keys 112 to 135.
\<close>

definition safeKeycodes :: "nat list" where
  "safeKeycodes =
     [38, 39, 40, 37, 9, 16, 17, 18, 19, 20, 27, 33, 34, 35, 36, 45, 91, 93, 144, 145,
      173, 174, 175, 176, 177, 178, 179, 255] @ [112 ..< 136]"

definition isSafeKeystroke :: "key_event_data \<Rightarrow> bool" where
  "isSafeKeystroke keyData = (if ctrlKey keyData then True else keyCode keyData \<in> set safeKeycodes)"

definition isCollapsed :: "range \<Rightarrow> bool" where
  "isCollapsed r \<longleftrightarrow> fst r = snd r"

text \<open>
  Modelled from the spec: the host's \<open>model.deleteContent( selection )\<close>, which is not
  part of this repository: the selected content is removed and the selection collapses
  where it started.
\<close>

definition deleteContent :: "typing_state \<Rightarrow> typing_state" where
  "deleteContent st =
     (let a = min (fst (doc_selection st)) (snd (doc_selection st));
          b = max (fst (doc_selection st)) (snd (doc_selection st))
      in st\<lparr> doc_content := take a (doc_content st) @ drop b (doc_content st),
              doc_selection := (a, a) \<rparr>)"

text \<open>
  \<open>deleteSelectionContent\<close>: the buffer is locked, the deletion is enqueued on the
  buffer's batch, and the buffer is unlocked again.
\<close>

definition deleteSelectionContent :: "typing_state \<Rightarrow> typing_state" where
  "deleteSelectionContent st = deleteContent st"

text \<open>The listener of \<open>compositionend\<close>.\<close>

definition compositionEnd :: "typing_state \<Rightarrow> typing_state" where
  "compositionEnd st = st\<lparr> latestCompositionSelection := Some (doc_selection st) \<rparr>"

definition handleUnsafeKeystroke :: "key_event_data \<Rightarrow> typing_state \<Rightarrow> typing_state" where
  "handleUnsafeKeystroke evtData st =
     (let isSelectionUnchanged =
            (case latestCompositionSelection st of
               None \<Rightarrow> False
             | Some sel \<Rightarrow> sel = doc_selection st);
          st1 = st\<lparr> latestCompositionSelection := None \<rparr>
      in if \<not> isEnabled st1 then st1
         else if isSafeKeystroke evtData \<or> isCollapsed (doc_selection st1) then st1
         else if isComposing st1 \<and> keyCode evtData = 229 then st1
         else if \<not> isComposing st1 \<and> keyCode evtData = 229 \<and> isSelectionUnchanged then st1
         else deleteSelectionContent st1)"

section \<open>The delete listener (\<open>delete.js\<close>)\<close>

text \<open>
  The data of a \<open>delete\<close> view event, and the parameters the listener passes to the
  delete command. Ranges of the view are mapped by \<open>editor.editing.mapper.toModelRange\<close>,
  a parameter here; it may throw.
\<close>

datatype direction = Forward | Backward

record delete_data =
  del_unit :: string
  del_sequence :: nat
  del_direction :: direction
  selectionToRemove :: "range list option"

record delete_params =
  p_unit :: string
  p_sequence :: nat
  p_selection :: "range list option"

fun toModelRanges :: "(range \<Rightarrow> error + range) \<Rightarrow> range list \<Rightarrow> error + range list" where
  "toModelRanges toModelRange [] = Inr []"
| "toModelRanges toModelRange (viewRange # viewRanges) =
     (case toModelRange viewRange of
        Inl e \<Rightarrow> Inl e
      | Inr r \<Rightarrow>
          (case toModelRanges toModelRange viewRanges of
             Inl e \<Rightarrow> Inl e
           | Inr rs \<Rightarrow> Inr (r # rs)))"

text \<open>
  The listener up to its call of \<open>editor.execute\<close>: the command name and
  \<open>deleteCommandParams\<close> of that call, or the error thrown before it. After the call the
  listener prevents the default action and scrolls to the selection.
\<close>

definition deleteCommandParams ::
  "(range \<Rightarrow> error + range) \<Rightarrow> delete_data \<Rightarrow> error + (string \<times> delete_params)" where
  "deleteCommandParams toModelRange data =
     (let name = (if del_direction data = Forward then ''forwardDelete'' else ''delete'')
      in case selectionToRemove data of
           None \<Rightarrow>
             Inr (name, \<lparr> p_unit = del_unit data, p_sequence = del_sequence data,
                         p_selection = None \<rparr>)
         | Some viewRanges \<Rightarrow>
             (case toModelRanges toModelRange viewRanges of
                Inl e \<Rightarrow> Inl e
              | Inr ranges \<Rightarrow>
                  Inr (name, \<lparr> p_unit = del_unit data, p_sequence = del_sequence data,
                              p_selection = Some ranges \<rparr>)))"

text \<open>
  Modelled from the spec: \<open>src/deletecommand.js\<close> of this repository is not among the
  sources. The spec says that the command works on "the current selection (or an
  explicitly supplied override selection)".
\<close>

definition selectionOperatedOn :: "delete_params \<Rightarrow> range list \<Rightarrow> range list" where
  "selectionOperatedOn params currentSelection =
     (case p_selection params of None \<Rightarrow> currentSelection | Some sel \<Rightarrow> sel)"

text \<open>A range lies in the content when it is ordered and ends within it.\<close>

definition validRange :: "node list \<Rightarrow> range \<Rightarrow> bool" where
  "validRange c r \<longleftrightarrow> fst r \<le> snd r \<and> snd r \<le> length c"

section \<open>Replacement exactness\<close>

lemma exec_copyright:
  "exec (Seq (Group 1 (literal (str ''(c)''))) Eol) (str ''A foo(c)'') =
     Some \<lparr> index = 5, whole = str ''(c)'', groups = [Some (str ''(c)'')] \<rparr>"
  by code_simp

lemma replace_copyright:
  "replaceLoop [Some (str ''(c)'')] [Some [0xA9]] 1 5 (plainText (str ''A foo(c)'')) =
     Inr (plainText (str ''A foo'' @ [0xA9]))"
  by code_simp

lemma copyright_rule:
  "map_of TRANSFORMATIONS ''copyright'' = Some \<lparr> t_from = FromStr (str ''(c)''), t_to = ToStr [0xA9] \<rparr>"
  by (simp add: TRANSFORMATIONS_def)

text \<open>
  Claim C1. For the rule \<open>{ from: '(c)', to: '\<copyright>' }\<close>, when the listener of
  \<open>matched:data\<close> runs on a batch of the input command with the text \<open>A foo(c)\<close> before
  the caret, the document holds exactly \<open>A foo\<copyright>\<close> afterwards, committed in one change.
\<close>

theorem copyright_replacement_exact:
  assumes "map_of TRANSFORMATIONS ''copyright'' = Some r"
    and "isInput (data_batch data)"
    and "text_before data = str ''A foo(c)''"
    and "content d = plainText (str ''A foo(c)'')"
  shows "matchedDataHandler isInput (normalizeFrom (t_from r)) (normalizeTo (t_to r)) data d =
     (None, d\<lparr> content := plainText (str ''A foo'' @ [0xA9]),
                notified := notified d @ [plainText (str ''A foo'' @ [0xA9])] \<rparr>)"
proof -
  have r: "r = \<lparr> t_from = FromStr (str ''(c)''), t_to = ToStr [0xA9] \<rparr>"
    using assms(1) copyright_rule by simp
  have f: "normalizeFrom (t_from r) = FromRe (Seq (Group 1 (literal (str ''(c)''))) Eol)"
    unfolding r by (simp del: One_nat_def)
  have t: "normalizeTo (t_to r) = Some (\<lambda>_. [Some [0xA9]])"
    unfolding r by simp
  have e: "exec (Seq (Group 1 (literal (str ''(c)''))) Eol) (text_before data) =
      Some \<lparr> index = 5, whole = str ''(c)'', groups = [Some (str ''(c)'')] \<rparr>"
    by (simp only: assms(3) exec_copyright)
  have l: "replaceLoop [Some (str ''(c)'')] [Some [0xA9]] 1 5 (content d) =
      Inr (plainText (str ''A foo'' @ [0xA9]))"
    by (simp only: assms(4) replace_copyright)
  show ?thesis
    using assms(2)
    by (simp add: matchedDataHandler_def f t e l enqueueChange_def
          del: replaceLoop.simps One_nat_def)
qed

theorem copyright_replacement_exact_witness:
  "matchedDataHandler (\<lambda>b. btype b = Default)
     (normalizeFrom (FromStr (str ''(c)''))) (normalizeTo (ToStr [0xA9]))
     \<lparr> text_before = str ''A foo(c)'', data_batch = \<lparr> batch_id = 1, btype = Default \<rparr> \<rparr>
     \<lparr> content = plainText (str ''A foo(c)''), notified = [] \<rparr> =
   (None, \<lparr> content = plainText (str ''A foo'' @ [0xA9]),
            notified = [plainText (str ''A foo'' @ [0xA9])] \<rparr>)"
  using copyright_replacement_exact [of "\<lparr> t_from = FromStr (str ''(c)''), t_to = ToStr [0xA9] \<rparr>"
      "\<lambda>b. btype b = Default"
      "\<lparr> text_before = str ''A foo(c)'', data_batch = \<lparr> batch_id = 1, btype = Default \<rparr> \<rparr>"
      "\<lparr> content = plainText (str ''A foo(c)''), notified = [] \<rparr>"]
  by (simp add: copyright_rule)

lemma takeWhile_inner:
  "q \<notin> set inner \<Longrightarrow> takeWhile (cmatch (CNotLit q)) (inner @ q # rest) = inner"
  by (induction inner) auto

lemma quotes_rmatch:
  assumes "isWhiteSpace sp" "sp \<noteq> q" "q \<notin> set inner"
  shows "\<exists>rest. rmatch (buildQuotesRegExp q) (sp # q # inner @ [q]) (0, cs) =
     (length inner + 3, cs(1 := Some (0, 1), 2 := Some (1, 2), 3 := Some (2, length inner + 2),
         4 := Some (length inner + 2, length inner + 3))) # rest"
proof -
  have r: "rev [Suc (Suc 0) ..< Suc (Suc (Suc (length inner)))] =
           Suc (Suc (length inner)) # rev [Suc (Suc 0) ..< Suc (Suc (length inner))]"
    by simp
  show ?thesis
    using assms
    by (simp add: buildQuotesRegExp_def takeWhile_inner nth_append r eval_nat_numeral del: upt_Suc)
qed

lemma quotes_exec:
  assumes "isWhiteSpace sp" "sp \<noteq> q" "q \<notin> set inner"
  shows "exec (buildQuotesRegExp q) (sp # q # inner @ [q]) =
     Some \<lparr> index = 0, whole = sp # q # inner @ [q],
            groups = [Some [sp], Some [q], Some inner, Some [q]] \<rparr>"
proof -
  obtain rest where r: "rmatch (buildQuotesRegExp q) (sp # q # inner @ [q]) (0, \<lambda>k. None) =
     (length inner + 3, (\<lambda>k. None)(1 := Some (0, 1), 2 := Some (1, 2), 3 := Some (2, length inner + 2),
         4 := Some (length inner + 2, length inner + 3))) # rest"
    using quotes_rmatch [OF assms] by blast
  have u: "[0 ..< Suc (length (sp # q # inner @ [q]))] = 0 # [1 ..< Suc (length (sp # q # inner @ [q]))]"
    by (simp add: upt_conv_Cons del: upt_Suc)
  have n: "ngroups (buildQuotesRegExp q) = 4"
    by (simp add: buildQuotesRegExp_def)
  have l: "[1 ..< Suc 4] = [1, 2, 3, 4::nat]"
    by (simp add: upt_conv_Cons del: upt_Suc)
  show ?thesis
    unfolding exec_def u n l
    by (simp add: r substring_def)
qed


lemma quotes_replace:
  "replaceLoop [Some [sp], Some [q], Some inner, Some [q]] [None, Some [lq], None, Some [rq]] 1 0
      (plainText (sp # q # inner @ [q])) =
   Inr (plainText (sp # lq # inner @ [rq]))"
  by (simp add: plainText_def createText_def insertContent_def
        getTextAttributesAfterPosition_def nth_append)

lemma quotesPrimary_rule:
  "map_of TRANSFORMATIONS ''quotesPrimary'' =
     Some \<lparr> t_from = FromRe (buildQuotesRegExp 0x22),
            t_to = ToArr [None, Some [0x201C], None, Some [0x201D]] \<rparr>"
  by (simp add: TRANSFORMATIONS_def)

text \<open>
  Claim C2. For the rule \<open>quotesPrimary\<close>, whose pattern is \<open>buildQuotesRegExp\<close> of the
  straight double quote \<open>0x22\<close> and whose replacement is \<open>null\<close>, \<open>0x201C\<close>, \<open>null\<close>,
  \<open>0x201D\<close>, the listener run on the text of the claim (a space, a straight quote,
  \<open>inner\<close>, a straight quote) leaves the space and \<open>inner\<close> as they are and replaces only
  the two quotes, by the left and the right curly quote.
\<close>

theorem quotesPrimary_partial_groups:
  assumes "map_of TRANSFORMATIONS ''quotesPrimary'' = Some r"
    and "isInput (data_batch data)"
    and "inner = str ''Foo 1992 '' @ [0x2014] @ str '' bar(1) baz: xyz.''"
    and "text_before data = str '' '' @ [0x22] @ inner @ [0x22]"
    and "content d = plainText (str '' '' @ [0x22] @ inner @ [0x22])"
  shows "matchedDataHandler isInput (normalizeFrom (t_from r)) (normalizeTo (t_to r)) data d =
     (None, d\<lparr> content := plainText (str '' '' @ [0x201C] @ inner @ [0x201D]),
                notified := notified d @ [plainText (str '' '' @ [0x201C] @ inner @ [0x201D])] \<rparr>)"
proof -
  have r: "r = \<lparr> t_from = FromRe (buildQuotesRegExp 0x22),
                 t_to = ToArr [None, Some [0x201C], None, Some [0x201D]] \<rparr>"
    using assms(1) quotesPrimary_rule by simp
  have sp: "str '' '' = [0x20]"
    by (simp add: str_def)
  have q: "(0x22::nat) \<notin> set inner"
    unfolding assms(3) by (simp add: str_def)
  have w: "isWhiteSpace 0x20"
    by (simp add: isWhiteSpace_def)
  have e: "exec (buildQuotesRegExp 0x22) (text_before data) =
      Some \<lparr> index = 0, whole = 0x20 # 0x22 # inner @ [0x22],
             groups = [Some [0x20], Some [0x22], Some inner, Some [0x22]] \<rparr>"
    using quotes_exec [OF w _ q] by (simp add: assms(4) sp)
  have l: "replaceLoop [Some [0x20], Some [0x22], Some inner, Some [0x22]]
             [None, Some [0x201C], None, Some [0x201D]] 1 0 (content d) =
           Inr (plainText (str '' '' @ [0x201C] @ inner @ [0x201D]))"
    using quotes_replace [of "0x20" "0x22" inner "0x201C" "0x201D"]
    by (simp add: assms(5) sp del: replaceLoop.simps One_nat_def)
  show ?thesis
    using assms(2)
    by (simp add: matchedDataHandler_def r e l enqueueChange_def
          del: replaceLoop.simps One_nat_def)
qed

theorem quotesPrimary_partial_groups_witness:
  "matchedDataHandler (\<lambda>b. btype b = Default)
     (normalizeFrom (FromRe (buildQuotesRegExp 0x22)))
     (normalizeTo (ToArr [None, Some [0x201C], None, Some [0x201D]]))
     \<lparr> text_before = str '' '' @ [0x22] @ (str ''Foo 1992 '' @ [0x2014] @ str '' bar(1) baz: xyz.'') @ [0x22],
       data_batch = \<lparr> batch_id = 1, btype = Default \<rparr> \<rparr>
     \<lparr> content = plainText (str '' '' @ [0x22] @ (str ''Foo 1992 '' @ [0x2014] @ str '' bar(1) baz: xyz.'') @ [0x22]),
       notified = [] \<rparr> =
   (None,
    \<lparr> content = plainText (str '' '' @ [0x201C] @ (str ''Foo 1992 '' @ [0x2014] @ str '' bar(1) baz: xyz.'') @ [0x201D]),
      notified = [plainText (str '' '' @ [0x201C] @ (str ''Foo 1992 '' @ [0x2014] @ str '' bar(1) baz: xyz.'') @ [0x201D])] \<rparr>)"
  using quotesPrimary_partial_groups
    [of "\<lparr> t_from = FromRe (buildQuotesRegExp 0x22),
           t_to = ToArr [None, Some [0x201C], None, Some [0x201D]] \<rparr>"
        "\<lambda>b. btype b = Default"
        "\<lparr> text_before = str '' '' @ [0x22] @ (str ''Foo 1992 '' @ [0x2014] @ str '' bar(1) baz: xyz.'') @ [0x22],
           data_batch = \<lparr> batch_id = 1, btype = Default \<rparr> \<rparr>"
        "str ''Foo 1992 '' @ [0x2014] @ str '' bar(1) baz: xyz.''"
        "\<lparr> content = plainText (str '' '' @ [0x22] @ (str ''Foo 1992 '' @ [0x2014] @ str '' bar(1) baz: xyz.'') @ [0x22]),
           notified = [] \<rparr>"]
  by (simp add: quotesPrimary_rule del: append_assoc)

section \<open>Batches that are not input\<close>

text \<open>
  Claim C3. When \<open>input.isInput( data.batch )\<close> is false the listener returns with the
  document as it was and no error, whatever the rule and the text; and the watcher's
  other events, \<open>matched:selection\<close> and \<open>unmatched\<close>, reach no listener of the
  transformation at all. A selection change, a deletion or a merge is not a batch of
  the input command, so none of them leads to a replacement.
\<close>

theorem non_input_batch_no_modification:
  "(\<not> isInput (data_batch data) \<longrightarrow>
      matchedDataHandler isInput from_re to_fn data d = (None, d) \<and>
      onWatcherEvent isInput from_re to_fn (MatchedData data) d = (None, d)) \<and>
   onWatcherEvent isInput from_re to_fn (MatchedSelection t) d = (None, d) \<and>
   onWatcherEvent isInput from_re to_fn Unmatched d = (None, d)"
  by (simp add: onWatcherEvent_def matchedDataHandler_def)

theorem non_input_batch_no_modification_witness:
  "matchedDataHandler (\<lambda>b. batch_id b = 7) (normalizeFrom (FromStr (str ''(tm)'')))
      (normalizeTo (ToStr [0x2122]))
      \<lparr> text_before = str ''foo bar(tm)'', data_batch = \<lparr> batch_id = 3, btype = Default \<rparr> \<rparr>
      \<lparr> content = plainText (str ''foo bar(tm)''), notified = [] \<rparr> =
    (None, \<lparr> content = plainText (str ''foo bar(tm)''), notified = [] \<rparr>)"
  using non_input_batch_no_modification
    [of "\<lambda>b. batch_id b = 7"
        "\<lparr> text_before = str ''foo bar(tm)'', data_batch = \<lparr> batch_id = 3, btype = Default \<rparr> \<rparr>"
        "normalizeFrom (FromStr (str ''(tm)''))" "normalizeTo (ToStr [0x2122])"
        "\<lparr> content = plainText (str ''foo bar(tm)''), notified = [] \<rparr>"]
  by simp

section \<open>One transaction per match\<close>

lemma partial_then_throw:
  "replaceLoop [Some [0x61]] [Some [0x62], Some [0x78]] 1 0 (plainText [0x61]) = Inr (plainText [0x62]) \<and>
   replaceLoop [Some [0x61], Some []] [Some [0x62], Some [0x78]] 1 0 (plainText [0x61]) = Inl TypeError"
  by code_simp

lemma exec_a_empty:
  "exec (Seq (Group 1 (Atom (CLit 0x61))) (Seq (Group 2 Eps) Eol)) [0x61] =
     Some \<lparr> index = 0, whole = [0x61], groups = [Some [0x61], Some []] \<rparr>"
  by code_simp

lemma throwing_handler:
  "matchedDataHandler (\<lambda>b. True)
      (FromRe (Seq (Group 1 (Atom (CLit 0x61))) (Seq (Group 2 Eps) Eol)))
      (normalizeTo (ToArr [Some [0x62], Some [0x78]]))
      \<lparr> text_before = [0x61], data_batch = \<lparr> batch_id = 1, btype = Default \<rparr> \<rparr>
      \<lparr> content = plainText [0x61], notified = [] \<rparr> =
    (Some TypeError, \<lparr> content = plainText [0x61], notified = [] \<rparr>)"
  by code_simp

text \<open>
  Claim C4. The listener opens at most one transaction, and the loop over all capture
  groups runs inside its callback. Whatever the listener returns, the document is
  either the one before, or the one before with the content that the complete loop
  produced and exactly one more notification, of that content; and when an error
  surfaces the document is the one before. (The behaviour of the transaction on an
  error is the one the spec gives for the host.)
\<close>

theorem replacement_single_transaction:
  assumes "matchedDataHandler isInput from_re to_fn data d = (r, d')"
  shows "(r \<noteq> None \<longrightarrow> d' = d) \<and>
    (d' = d \<or>
     (\<exists>re matches f c.
        from_re = FromRe re \<and> exec re (text_before data) = Some matches \<and> to_fn = Some f \<and>
        replaceLoop (groups matches) (f (groups matches)) 1 (index matches) (content d) = Inr c \<and>
        r = None \<and> d' = d\<lparr> content := c, notified := notified d @ [c] \<rparr>))"
  using assms
  by (auto simp add: matchedDataHandler_def enqueueChange_def
        split: if_splits from_val.splits option.splits sum.splits)

theorem replacement_single_transaction_witness:
  "matchedDataHandler (\<lambda>b. True)
      (FromRe (Seq (Group 1 (Atom (CLit 0x61))) (Seq (Group 2 Eps) Eol)))
      (normalizeTo (ToArr [Some [0x62], Some [0x78]]))
      \<lparr> text_before = [0x61], data_batch = \<lparr> batch_id = 1, btype = Default \<rparr> \<rparr>
      \<lparr> content = plainText [0x61], notified = [] \<rparr> =
    (Some TypeError, \<lparr> content = plainText [0x61], notified = [] \<rparr>) \<and>
   replaceLoop [Some [0x61]] [Some [0x62], Some [0x78]] 1 0 (plainText [0x61]) =
     Inr (plainText [0x62])"
  using replacement_single_transaction [OF throwing_handler] partial_then_throw throwing_handler
  by simp

section \<open>Rule-set resolution\<close>

text \<open>
  Claim C5 says that \<open>{ include: [ 'symbols', 'bogus' ] }\<close> resolves to exactly the three
  rules of the group \<open>symbols\<close>. The code raises nothing but keeps the unknown name: the
  result has a fourth entry, the string \<open>bogus\<close> itself, for which \<open>init\<close> builds a
  watcher whose predicate throws a \<open>TypeError\<close> on every text, and whose \<open>to\<close> is
  \<open>undefined\<close>.
\<close>

theorem unknown_name_kept:
  "getConfiguredTransformations
     \<lparr> cfg_include = [Name ''symbols'', Name ''bogus''], cfg_extra = None, cfg_remove = None \<rparr> =
     [ Obj \<lparr> t_from = FromStr (str ''(c)''), t_to = ToStr [0xA9] \<rparr>,
       Obj \<lparr> t_from = FromStr (str ''(r)''), t_to = ToStr [0xAE] \<rparr>,
       Obj \<lparr> t_from = FromStr (str ''(tm)''), t_to = ToStr [0x2122] \<rparr>,
       Name ''bogus'' ] \<and>
   watcherTest (normalizeFrom (definitionFrom (Name ''bogus''))) t = Inl TypeError \<and>
   normalizeTo (definitionTo (Name ''bogus'')) = None"
  by (simp add: getConfiguredTransformations_def configuredNames_def isNotRemoved_def
        expandGroupsAndRemoveDuplicates_def TRANSFORMATION_GROUPS_def setAdd_def
        TRANSFORMATIONS_def)











section \<open>Alternation of watcher events\<close>

lemma watcherRun_alternating:
  assumes "distinct_adj (map testCallback (evaluatedContexts ns))"
    and "matched \<longrightarrow> (case evaluatedContexts ns of [] \<Rightarrow> True | c # cs \<Rightarrow> \<not> testCallback c)"
  shows "alternating (\<not> matched) (watcherRun testCallback matched ns)"
  using assms
proof (induction ns arbitrary: matched)
  case Nil
  show ?case by simp
next
  case (Cons n ns)
  show ?case
  proof (cases n)
    case (ChangeApplied b sn)
    show ?thesis
    proof (cases "btype b = Transparent \<or> \<not> sel_collapsed sn")
      case True
      with Cons ChangeApplied show ?thesis by auto
    next
      case False
      then have ev: "evaluatedContexts (n # ns) = caretContext sn # evaluatedContexts ns"
        using ChangeApplied by simp
      have da: "distinct_adj (map testCallback (evaluatedContexts ns))"
        using Cons.prems(1) ev by (auto simp add: distinct_adj_Cons)
      have nx: "testCallback (caretContext sn) \<longrightarrow>
          (case evaluatedContexts ns of [] \<Rightarrow> True | c # cs \<Rightarrow> \<not> testCallback c)"
        using Cons.prems(1) ev by (auto simp add: distinct_adj_Cons split: list.splits)
      have m: "matched \<longrightarrow> \<not> testCallback (caretContext sn)"
        using Cons.prems(2) ev by simp
      show ?thesis
      proof (cases "testCallback (caretContext sn)")
        case True
        with m have "\<not> matched" by simp
        with True False ChangeApplied Cons.IH [of True] da nx show ?thesis by simp
      next
        case f: False
        with False ChangeApplied Cons.IH [of False] da show ?thesis by simp
      qed
    qed
  next
    case (SelectionChanged sn)
    show ?thesis
    proof (cases "sel_collapsed sn")
      case False
      with Cons.prems(1) SelectionChanged Cons.IH [of False] show ?thesis by simp
    next
      case True
      then have ev: "evaluatedContexts (n # ns) = caretContext sn # evaluatedContexts ns"
        using SelectionChanged by simp
      have da: "distinct_adj (map testCallback (evaluatedContexts ns))"
        using Cons.prems(1) ev by (auto simp add: distinct_adj_Cons)
      have nx: "testCallback (caretContext sn) \<longrightarrow>
          (case evaluatedContexts ns of [] \<Rightarrow> True | c # cs \<Rightarrow> \<not> testCallback c)"
        using Cons.prems(1) ev by (auto simp add: distinct_adj_Cons split: list.splits)
      have m: "matched \<longrightarrow> \<not> testCallback (caretContext sn)"
        using Cons.prems(2) ev by simp
      show ?thesis
      proof (cases "testCallback (caretContext sn)")
        case t: True
        with m have "\<not> matched" by simp
        with t True SelectionChanged Cons.IH [of True] da nx show ?thesis by simp
      next
        case f: False
        with True SelectionChanged Cons.IH [of False] da show ?thesis by simp
      qed
    qed
  qed
qed

lemma unmatched_only_from_matched:
  "Unmatched \<in> set (snd (watcherStep testCallback matched n)) \<Longrightarrow> matched"
  by (cases n) (auto split: if_splits)

text \<open>
  Against claim C7 as it is stated: three edits whose contexts are \<open>foo @\<close>, \<open>foo @@\<close>
  and \<open>foo @\<close>, the second in a transparent batch. The value of the predicate toggles
  from edit to edit (true, false, true), the watcher ignores the transparent edit, and
  it emits two matched events with no unmatched event between them.
\<close>

theorem transparent_edit_breaks_alternation:
  "map (\<lambda>t. t = str ''foo @'')
     (map caretContext
       [ \<lparr> sel_collapsed = True, sel_parent = plainText (str ''foo @''), sel_offset = 5 \<rparr>,
         \<lparr> sel_collapsed = True, sel_parent = plainText (str ''foo @@''), sel_offset = 6 \<rparr>,
         \<lparr> sel_collapsed = True, sel_parent = plainText (str ''foo @''), sel_offset = 5 \<rparr> ]) =
     [True, False, True] \<and>
   watcherRun (\<lambda>t. t = str ''foo @'') False
     [ ChangeApplied \<lparr> batch_id = 1, btype = Default \<rparr>
         \<lparr> sel_collapsed = True, sel_parent = plainText (str ''foo @''), sel_offset = 5 \<rparr>,
       ChangeApplied \<lparr> batch_id = 2, btype = Transparent \<rparr>
         \<lparr> sel_collapsed = True, sel_parent = plainText (str ''foo @@''), sel_offset = 6 \<rparr>,
       ChangeApplied \<lparr> batch_id = 3, btype = Default \<rparr>
         \<lparr> sel_collapsed = True, sel_parent = plainText (str ''foo @''), sel_offset = 5 \<rparr> ] =
     [ MatchedData \<lparr> text_before = str ''foo @'',
                     data_batch = \<lparr> batch_id = 1, btype = Default \<rparr> \<rparr>,
       MatchedData \<lparr> text_before = str ''foo @'',
                     data_batch = \<lparr> batch_id = 3, btype = Default \<rparr> \<rparr> ] \<and>
   \<not> alternating True
     (watcherRun (\<lambda>t. t = str ''foo @'') False
       [ ChangeApplied \<lparr> batch_id = 1, btype = Default \<rparr>
           \<lparr> sel_collapsed = True, sel_parent = plainText (str ''foo @''), sel_offset = 5 \<rparr>,
         ChangeApplied \<lparr> batch_id = 2, btype = Transparent \<rparr>
           \<lparr> sel_collapsed = True, sel_parent = plainText (str ''foo @@''), sel_offset = 6 \<rparr>,
         ChangeApplied \<lparr> batch_id = 3, btype = Default \<rparr>
           \<lparr> sel_collapsed = True, sel_parent = plainText (str ''foo @''), sel_offset = 5 \<rparr> ])"
  by (simp add: caretContext_def plainText_def str_def)

text \<open>
  Claim C7, amended. The watcher evaluates the predicate only on an edit that is not in
  a transparent batch and on a notification with a collapsed selection. When the values
  the predicate returns on the contexts it is evaluated on, one after the other, are
  never twice the same, the events a watcher emits from its initial, unmatched state
  are matched, unmatched, matched, ... in strict alternation; and, for any predicate, a
  notification emits \<open>unmatched\<close> only when the watcher was matched.
\<close>

theorem watcher_events_alternate:
  "(distinct_adj (map testCallback (evaluatedContexts ns)) \<longrightarrow>
      alternating True (watcherRun testCallback False ns)) \<and>
   (Unmatched \<in> set (snd (watcherStep testCallback matched n)) \<longrightarrow> matched)"
  using watcherRun_alternating [of testCallback ns False] unmatched_only_from_matched
  by auto

theorem watcher_events_alternate_witness:
  "watcherRun (\<lambda>t. t = str ''foo @'') False
     [ ChangeApplied \<lparr> batch_id = 1, btype = Default \<rparr>
         \<lparr> sel_collapsed = True, sel_parent = plainText (str ''foo @''), sel_offset = 5 \<rparr>,
       ChangeApplied \<lparr> batch_id = 2, btype = Default \<rparr>
         \<lparr> sel_collapsed = True, sel_parent = plainText (str ''foo @@''), sel_offset = 6 \<rparr> ] =
     [ MatchedData \<lparr> text_before = str ''foo @'',
                     data_batch = \<lparr> batch_id = 1, btype = Default \<rparr> \<rparr>,
       Unmatched ] \<and>
   alternating True
     (watcherRun (\<lambda>t. t = str ''foo @'') False
       [ ChangeApplied \<lparr> batch_id = 1, btype = Default \<rparr>
           \<lparr> sel_collapsed = True, sel_parent = plainText (str ''foo @''), sel_offset = 5 \<rparr>,
         ChangeApplied \<lparr> batch_id = 2, btype = Default \<rparr>
           \<lparr> sel_collapsed = True, sel_parent = plainText (str ''foo @@''), sel_offset = 6 \<rparr> ])"
proof -
  let ?ns = "[ ChangeApplied \<lparr> batch_id = 1, btype = Default \<rparr>
         \<lparr> sel_collapsed = True, sel_parent = plainText (str ''foo @''), sel_offset = 5 \<rparr>,
       ChangeApplied \<lparr> batch_id = 2, btype = Default \<rparr>
         \<lparr> sel_collapsed = True, sel_parent = plainText (str ''foo @@''), sel_offset = 6 \<rparr> ]"
  have c: "evaluatedContexts ?ns = [str ''foo @'', str ''foo @@'']"
    by (simp add: caretContext_def plainText_def str_def)
  have d: "distinct_adj (map (\<lambda>t. t = str ''foo @'') (evaluatedContexts ?ns))"
    unfolding c by (simp add: str_def)
  have r: "watcherRun (\<lambda>t. t = str ''foo @'') False ?ns =
     [ MatchedData \<lparr> text_before = str ''foo @'',
                     data_batch = \<lparr> batch_id = 1, btype = Default \<rparr> \<rparr>,
       Unmatched ]"
    by (simp add: caretContext_def plainText_def str_def)
  show ?thesis
    using watcher_events_alternate [of "\<lambda>t. t = str ''foo @''" ?ns] d r
    by (simp del: watcherRun.simps)
qed

section \<open>Unsafe keystrokes\<close>

lemma key229_not_safe: "\<not> ctrlKey e \<Longrightarrow> keyCode e = 229 \<Longrightarrow> \<not> isSafeKeystroke e"
  by (simp add: isSafeKeystroke_def safeKeycodes_def)

lemma handler_keeps_flags:
  "latestCompositionSelection (handleUnsafeKeystroke e st) = None \<and>
   isEnabled (handleUnsafeKeystroke e st) = isEnabled st \<and>
   isComposing (handleUnsafeKeystroke e st) = isComposing st"
  by (simp add: handleUnsafeKeystroke_def Let_def deleteSelectionContent_def deleteContent_def)

lemma handler_without_snapshot:
  assumes "latestCompositionSelection s = None" "isEnabled s" "\<not> isComposing s"
    "\<not> isSafeKeystroke e" "\<not> isCollapsed (doc_selection s)"
  shows "handleUnsafeKeystroke e s = deleteSelectionContent s"
  using assms by (cases s) (simp add: handleUnsafeKeystroke_def Let_def)

lemma deletion_collapses:
  "isCollapsed (doc_selection (deleteSelectionContent s))"
  by (simp add: deleteSelectionContent_def deleteContent_def Let_def isCollapsed_def)

text \<open>
  Claim C8. While \<open>isComposing\<close> holds, a keystroke with key code 229 changes nothing
  but the stored composition selection, which is reset: the selected content is not
  deleted. The listener of \<open>compositionend\<close> stores the selection of that moment. With
  the input command enabled, no composition open, key code 229 without Ctrl and a
  selection that is not collapsed, the next run of the handler is held back by the
  stored selection: it deletes nothing, where the same run without a stored selection,
  or with a stored selection other than the current one, deletes the selected content.
  That run resets the stored selection, as every run does, so the run after it is not
  held back and deletes the selected content: the stored selection is consumed by
  exactly one run.
\<close>

theorem composition_suppresses_deletion_once:
  "(isComposing st \<and> keyCode e = 229 \<longrightarrow>
      handleUnsafeKeystroke e st = st\<lparr> latestCompositionSelection := None \<rparr>) \<and>
   latestCompositionSelection (compositionEnd st) = Some (doc_selection st) \<and>
   (isEnabled st \<and> \<not> isComposing st \<and> \<not> ctrlKey e \<and> keyCode e = 229 \<and>
    \<not> isCollapsed (doc_selection st) \<longrightarrow>
      handleUnsafeKeystroke e (compositionEnd st) = st\<lparr> latestCompositionSelection := None \<rparr> \<and>
      handleUnsafeKeystroke e (st\<lparr> latestCompositionSelection := None \<rparr>) =
        deleteSelectionContent (st\<lparr> latestCompositionSelection := None \<rparr>) \<and>
      (\<forall>sel. sel \<noteq> doc_selection st \<longrightarrow>
         handleUnsafeKeystroke e (st\<lparr> latestCompositionSelection := Some sel \<rparr>) =
           deleteSelectionContent (st\<lparr> latestCompositionSelection := None \<rparr>)) \<and>
      handleUnsafeKeystroke e (handleUnsafeKeystroke e (compositionEnd st)) =
        deleteSelectionContent (st\<lparr> latestCompositionSelection := None \<rparr>) \<and>
      deleteSelectionContent (st\<lparr> latestCompositionSelection := None \<rparr>) \<noteq>
        st\<lparr> latestCompositionSelection := None \<rparr>) \<and>
   latestCompositionSelection (handleUnsafeKeystroke e st) = None \<and>
   (isEnabled st \<and> \<not> isComposing st \<and> \<not> isSafeKeystroke e' \<and>
    \<not> isCollapsed (doc_selection (handleUnsafeKeystroke e st)) \<longrightarrow>
      handleUnsafeKeystroke e' (handleUnsafeKeystroke e st) =
        deleteSelectionContent (handleUnsafeKeystroke e st))"
proof -
  let ?s0 = "st\<lparr> latestCompositionSelection := None \<rparr>"
  have a: "isComposing st \<and> keyCode e = 229 \<longrightarrow> handleUnsafeKeystroke e st = ?s0"
    by (simp add: handleUnsafeKeystroke_def Let_def)
  have b: "latestCompositionSelection (compositionEnd st) = Some (doc_selection st)"
    by (simp add: compositionEnd_def)
  have c: "handleUnsafeKeystroke e (compositionEnd st) = ?s0 \<and>
      handleUnsafeKeystroke e ?s0 = deleteSelectionContent ?s0 \<and>
      (\<forall>sel. sel \<noteq> doc_selection st \<longrightarrow>
         handleUnsafeKeystroke e (st\<lparr> latestCompositionSelection := Some sel \<rparr>) =
           deleteSelectionContent ?s0) \<and>
      handleUnsafeKeystroke e (handleUnsafeKeystroke e (compositionEnd st)) =
        deleteSelectionContent ?s0 \<and>
      deleteSelectionContent ?s0 \<noteq> ?s0"
    if h: "isEnabled st" "\<not> isComposing st" "\<not> ctrlKey e" "keyCode e = 229"
       "\<not> isCollapsed (doc_selection st)"
  proof -
    have k: "\<not> isSafeKeystroke e"
      using key229_not_safe h(3,4) .
    have c1: "handleUnsafeKeystroke e (compositionEnd st) = ?s0"
      using h k by (simp add: handleUnsafeKeystroke_def Let_def compositionEnd_def)
    have c2: "handleUnsafeKeystroke e ?s0 = deleteSelectionContent ?s0"
      using h k by (intro handler_without_snapshot) simp_all
    have c3: "handleUnsafeKeystroke e (st\<lparr> latestCompositionSelection := Some sel \<rparr>) =
           deleteSelectionContent ?s0" if "sel \<noteq> doc_selection st" for sel
      using h k that by (simp add: handleUnsafeKeystroke_def Let_def)
    have c5: "deleteSelectionContent ?s0 \<noteq> ?s0"
    proof
      assume "deleteSelectionContent ?s0 = ?s0"
      then have "isCollapsed (doc_selection ?s0)"
        using deletion_collapses [of ?s0] by simp
      with h(5) show False by simp
    qed
    show ?thesis
      using c1 c2 c3 c5 by simp
  qed
  have d: "latestCompositionSelection (handleUnsafeKeystroke e st) = None"
    using handler_keeps_flags by simp
  have f: "handleUnsafeKeystroke e' (handleUnsafeKeystroke e st) =
        deleteSelectionContent (handleUnsafeKeystroke e st)"
    if "isEnabled st" "\<not> isComposing st" "\<not> isSafeKeystroke e'"
       "\<not> isCollapsed (doc_selection (handleUnsafeKeystroke e st))"
    using that handler_keeps_flags [of e st]
    by (intro handler_without_snapshot) simp_all
  show ?thesis
    using a b c d f by blast
qed

theorem composition_suppresses_deletion_once_witness:
  "handleUnsafeKeystroke \<lparr> keyCode = 229, ctrlKey = False \<rparr>
     \<lparr> latestCompositionSelection = None, isComposing = True, isEnabled = True,
       doc_content = plainText (str ''abcd''), doc_selection = (1, 3) \<rparr> =
     \<lparr> latestCompositionSelection = None, isComposing = True, isEnabled = True,
       doc_content = plainText (str ''abcd''), doc_selection = (1, 3) \<rparr> \<and>
   compositionEnd
     \<lparr> latestCompositionSelection = None, isComposing = False, isEnabled = True,
       doc_content = plainText (str ''abcd''), doc_selection = (1, 3) \<rparr> =
     \<lparr> latestCompositionSelection = Some (1, 3), isComposing = False, isEnabled = True,
       doc_content = plainText (str ''abcd''), doc_selection = (1, 3) \<rparr> \<and>
   handleUnsafeKeystroke \<lparr> keyCode = 229, ctrlKey = False \<rparr>
     \<lparr> latestCompositionSelection = Some (1, 3), isComposing = False, isEnabled = True,
       doc_content = plainText (str ''abcd''), doc_selection = (1, 3) \<rparr> =
     \<lparr> latestCompositionSelection = None, isComposing = False, isEnabled = True,
       doc_content = plainText (str ''abcd''), doc_selection = (1, 3) \<rparr> \<and>
   handleUnsafeKeystroke \<lparr> keyCode = 229, ctrlKey = False \<rparr>
     \<lparr> latestCompositionSelection = None, isComposing = False, isEnabled = True,
       doc_content = plainText (str ''abcd''), doc_selection = (1, 3) \<rparr> =
     \<lparr> latestCompositionSelection = None, isComposing = False, isEnabled = True,
       doc_content = plainText (str ''ad''), doc_selection = (1, 1) \<rparr> \<and>
   handleUnsafeKeystroke \<lparr> keyCode = 229, ctrlKey = False \<rparr>
     \<lparr> latestCompositionSelection = Some (0, 3), isComposing = False, isEnabled = True,
       doc_content = plainText (str ''abcd''), doc_selection = (1, 3) \<rparr> =
     \<lparr> latestCompositionSelection = None, isComposing = False, isEnabled = True,
       doc_content = plainText (str ''ad''), doc_selection = (1, 1) \<rparr>"
proof -
  let ?e = "\<lparr> keyCode = 229, ctrlKey = False \<rparr>"
  let ?open = "\<lparr> latestCompositionSelection = None, isComposing = True, isEnabled = True,
       doc_content = plainText (str ''abcd''), doc_selection = (1, 3) \<rparr>"
  let ?closed = "\<lparr> latestCompositionSelection = None, isComposing = False, isEnabled = True,
       doc_content = plainText (str ''abcd''), doc_selection = (1, 3) \<rparr>"
  have del: "deleteSelectionContent ?closed =
     \<lparr> latestCompositionSelection = None, isComposing = False, isEnabled = True,
       doc_content = plainText (str ''ad''), doc_selection = (1, 1) \<rparr>"
    by (simp add: deleteSelectionContent_def deleteContent_def plainText_def str_def)
  have ce: "compositionEnd ?closed =
     \<lparr> latestCompositionSelection = Some (1, 3), isComposing = False, isEnabled = True,
       doc_content = plainText (str ''abcd''), doc_selection = (1, 3) \<rparr>"
    by (simp add: compositionEnd_def)
  have ne: "(0, 3) \<noteq> doc_selection ?closed"
    by simp
  show ?thesis
    using composition_suppresses_deletion_once [where st = ?open and e = ?e]
      composition_suppresses_deletion_once [where st = ?closed and e = ?e] del ce ne
    by (simp add: isCollapsed_def)
qed

text \<open>
  Claim C10. A key event with \<open>ctrlKey\<close> set leaves the content and the selection of the
  document as they are, whatever the state and the key code; only the stored
  composition selection is reset.
\<close>

theorem ctrl_keystroke_no_mutation:
  assumes "ctrlKey e"
  shows "handleUnsafeKeystroke e st = st\<lparr> latestCompositionSelection := None \<rparr> \<and>
    doc_content (handleUnsafeKeystroke e st) = doc_content st \<and>
    doc_selection (handleUnsafeKeystroke e st) = doc_selection st"
  using assms by (simp add: handleUnsafeKeystroke_def Let_def isSafeKeystroke_def)

theorem ctrl_keystroke_no_mutation_witness:
  "handleUnsafeKeystroke \<lparr> keyCode = 88, ctrlKey = True \<rparr>
     \<lparr> latestCompositionSelection = Some (1, 3), isComposing = False, isEnabled = True,
       doc_content = plainText (str ''abcd''), doc_selection = (1, 3) \<rparr> =
     \<lparr> latestCompositionSelection = None, isComposing = False, isEnabled = True,
       doc_content = plainText (str ''abcd''), doc_selection = (1, 3) \<rparr> \<and>
   handleUnsafeKeystroke \<lparr> keyCode = 88, ctrlKey = False \<rparr>
     \<lparr> latestCompositionSelection = Some (1, 3), isComposing = False, isEnabled = True,
       doc_content = plainText (str ''abcd''), doc_selection = (1, 3) \<rparr> =
     \<lparr> latestCompositionSelection = None, isComposing = False, isEnabled = True,
       doc_content = plainText (str ''ad''), doc_selection = (1, 1) \<rparr>"
proof -
  have k: "\<not> isSafeKeystroke \<lparr> keyCode = 88, ctrlKey = False \<rparr>"
    by (simp add: isSafeKeystroke_def safeKeycodes_def)
  have "handleUnsafeKeystroke \<lparr> keyCode = 88, ctrlKey = False \<rparr>
     \<lparr> latestCompositionSelection = Some (1, 3), isComposing = False, isEnabled = True,
       doc_content = plainText (str ''abcd''), doc_selection = (1, 3) \<rparr> =
     \<lparr> latestCompositionSelection = None, isComposing = False, isEnabled = True,
       doc_content = plainText (str ''ad''), doc_selection = (1, 1) \<rparr>"
    using k
    by (simp add: handleUnsafeKeystroke_def Let_def isCollapsed_def deleteSelectionContent_def
          deleteContent_def plainText_def str_def)
  then show ?thesis
    using ctrl_keystroke_no_mutation
      [of "\<lparr> keyCode = 88, ctrlKey = True \<rparr>"
          "\<lparr> latestCompositionSelection = Some (1, 3), isComposing = False, isEnabled = True,
             doc_content = plainText (str ''abcd''), doc_selection = (1, 3) \<rparr>"]
    by simp
qed

section \<open>The selection of a delete event\<close>

text \<open>
  Against claim C9 as it is stated: a view range that the mapper maps to \<open>(1, 5)\<close>, which
  is no range of the content \<open>ab\<close>, is passed to the command as it is, and the command
  works on it and not on the current selection \<open>(2, 2)\<close>; and with a mapper that throws
  on such a range, the listener fails with that error.
\<close>

theorem stale_selection_not_replaced:
  "\<not> validRange (plainText (str ''ab'')) (1, 5) \<and>
   deleteCommandParams (\<lambda>r. Inr r)
     \<lparr> del_unit = ''character'', del_sequence = 1, del_direction = Backward,
       selectionToRemove = Some [(1, 5)] \<rparr> =
     Inr (''delete'', \<lparr> p_unit = ''character'', p_sequence = 1, p_selection = Some [(1, 5)] \<rparr>) \<and>
   selectionOperatedOn
     \<lparr> p_unit = ''character'', p_sequence = 1, p_selection = Some [(1, 5)] \<rparr> [(2, 2)] = [(1, 5)] \<and>
   deleteCommandParams (\<lambda>r. if snd r \<le> 2 then Inr r else Inl RangeError)
     \<lparr> del_unit = ''character'', del_sequence = 1, del_direction = Backward,
       selectionToRemove = Some [(1, 5)] \<rparr> = Inl RangeError"
  by (simp add: validRange_def plainText_def str_def deleteCommandParams_def
        selectionOperatedOn_def)

text \<open>
  Claim C9, amended. When the event carries a \<open>selectionToRemove\<close>, the listener maps its
  ranges and passes the result to the delete command as it is, whether or not it lies in
  the model content, and the command works on it; an error thrown by the mapping leaves
  the listener. The command works on the current model selection exactly when the event
  carries no \<open>selectionToRemove\<close>.
\<close>

theorem delete_uses_mapped_selection:
  "(selectionToRemove data = None \<longrightarrow>
      (\<exists>name params. deleteCommandParams toModelRange data = Inr (name, params) \<and>
         p_selection params = None \<and> selectionOperatedOn params current = current)) \<and>
   (\<forall>viewRanges ranges.
      selectionToRemove data = Some viewRanges \<and>
      toModelRanges toModelRange viewRanges = Inr ranges \<longrightarrow>
      (\<exists>name params. deleteCommandParams toModelRange data = Inr (name, params) \<and>
         p_selection params = Some ranges \<and> selectionOperatedOn params current = ranges)) \<and>
   (\<forall>viewRanges e.
      selectionToRemove data = Some viewRanges \<and>
      toModelRanges toModelRange viewRanges = Inl e \<longrightarrow>
      deleteCommandParams toModelRange data = Inl e)"
  by (simp add: deleteCommandParams_def selectionOperatedOn_def Let_def)

theorem delete_uses_mapped_selection_witness:
  "deleteCommandParams (\<lambda>r. Inr (fst r + 1, snd r + 1))
     \<lparr> del_unit = ''word'', del_sequence = 2, del_direction = Forward,
       selectionToRemove = Some [(0, 1)] \<rparr> =
     Inr (''forwardDelete'', \<lparr> p_unit = ''word'', p_sequence = 2, p_selection = Some [(1, 2)] \<rparr>) \<and>
   deleteCommandParams (\<lambda>r. Inr (fst r + 1, snd r + 1))
     \<lparr> del_unit = ''word'', del_sequence = 2, del_direction = Forward,
       selectionToRemove = None \<rparr> =
     Inr (''forwardDelete'', \<lparr> p_unit = ''word'', p_sequence = 2, p_selection = None \<rparr>)"
  using delete_uses_mapped_selection
    [of "\<lparr> del_unit = ''word'', del_sequence = 2, del_direction = Forward,
           selectionToRemove = Some [(0, 1)] \<rparr>"
        "\<lambda>r. Inr (fst r + 1, snd r + 1)" "[(3, 3)]"]
  by (simp add: deleteCommandParams_def)

end
